theory Spec2Isabelle
  imports Main "HOL-Library.Word"
begin

unbundle bit_operations_syntax

section \<open>The identity model (cmswww/database/database.go)\<close>

text \<open>
  An \<open>Identity\<close> is a fixed-size public key with two \<open>int64\<close> timestamps. The key is
  a Go array \<open>[identity.PublicKeySize]byte\<close>; the constant comes from an imported
  package, so the functions below take the key size as their first argument \<open>ksz\<close>.
\<close>

type_synonym byte = "8 word"
type_synonym int64 = "64 word"

record Identity =
  Key :: "byte list"
  Activated :: int64
  Deactivated :: int64

definition IsIdentityActive :: "Identity \<Rightarrow> bool" where
  "IsIdentityActive idn = (Activated idn \<noteq> 0 \<and> Deactivated idn = 0)"

text \<open>The \<open>for ... range\<close> loop of \<open>ActiveIdentity\<close>, returning at the first hit;
  after the loop the zero value of the array type is returned.\<close>

fun ActiveIdentity :: "nat \<Rightarrow> Identity list \<Rightarrow> byte list \<times> bool" where
  "ActiveIdentity ksz [] = (replicate ksz 0, False)"
| "ActiveIdentity ksz (v # i) =
     (if IsIdentityActive v then (Key v, True) else ActiveIdentity ksz i)"

text \<open>Go's \<open>encoding/hex\<close>: each byte gives two characters of \<open>hextable\<close>, the
  high nibble first.\<close>

definition hextable :: string where
  "hextable = ''0123456789abcdef''"

definition EncodeToString :: "byte list \<Rightarrow> string" where
  "EncodeToString src =
     concat (map (\<lambda>v. [hextable ! unat (drop_bit 4 v), hextable ! unat (v AND 15)]) src)"

definition ActiveIdentityString :: "nat \<Rightarrow> Identity list \<Rightarrow> string \<times> bool" where
  "ActiveIdentityString ksz i =
     (case ActiveIdentity ksz i of (key, ok) \<Rightarrow> (EncodeToString key, ok))"

section \<open>Paths and strings (Go's strings and path/filepath packages, on Unix)\<close>

text \<open>
  \<open>Load\<close> calls \<open>strings.HasPrefix\<close>, \<open>strings.Replace\<close>, \<open>filepath.Clean\<close>,
  \<open>filepath.Join\<close>, \<open>filepath.Abs\<close> and \<open>filepath.Dir\<close> of the Go standard
  library. They are modelled here for the Unix separator \<open>/\<close>, following the library's
  documented rules for \<open>Clean\<close>: runs of separators collapse, \<open>.\<close> elements vanish,
  an inner \<open>..\<close> removes the element before it, a \<open>..\<close> at the root vanishes, and
  the empty result is \<open>.\<close>.
\<close>

definition Separator :: char where
  "Separator = CHR ''/''"

fun splitSep :: "string \<Rightarrow> string list" where
  "splitSep [] = [[]]"
| "splitSep (c # cs) =
     (if c = Separator then [] # splitSep cs
      else (case splitSep cs of [] \<Rightarrow> [[c]] | w # ws \<Rightarrow> (c # w) # ws))"

fun joinSep :: "string list \<Rightarrow> string" where
  "joinSep [] = []"
| "joinSep [e] = e"
| "joinSep (e # es) = e @ Separator # joinSep es"

text \<open>The element loop of \<open>Clean\<close>: \<open>out\<close> holds the elements written so far, the last
  one first.\<close>

fun cleanElems :: "bool \<Rightarrow> string list \<Rightarrow> string list \<Rightarrow> string list" where
  "cleanElems rooted out [] = rev out"
| "cleanElems rooted out (e # es) =
     (if e = [] \<or> e = ''.'' then cleanElems rooted out es
      else if e = ''..'' then
        (if out \<noteq> [] \<and> hd out \<noteq> ''..'' then cleanElems rooted (tl out) es
         else if \<not> rooted then cleanElems rooted (''..'' # out) es
         else cleanElems rooted out es)
      else cleanElems rooted (e # out) es)"

definition IsAbs :: "string \<Rightarrow> bool" where
  "IsAbs path = (case path of [] \<Rightarrow> False | c # _ \<Rightarrow> c = Separator)"

definition Clean :: "string \<Rightarrow> string" where
  "Clean path =
     (if path = [] then ''.''
      else let rooted = IsAbs path;
               body = joinSep (cleanElems rooted [] (splitSep path));
               out = (if rooted then Separator # body else body)
           in if out = [] then ''.'' else out)"

text \<open>\<open>filepath.Join\<close> of two elements: empty elements are ignored, the rest is
  joined with the separator and cleaned; all empty gives the empty string.\<close>

definition Join :: "string \<Rightarrow> string \<Rightarrow> string" where
  "Join a b =
     (if a \<noteq> [] then Clean (a @ Separator # b)
      else if b \<noteq> [] then Clean b
      else [])"

text \<open>\<open>filepath.Dir\<close>: everything up to and including the last separator, cleaned.\<close>

definition Dir :: "string \<Rightarrow> string" where
  "Dir path = Clean (rev (dropWhile (\<lambda>c. c \<noteq> Separator) (rev path)))"

definition HasPrefix :: "string \<Rightarrow> string \<Rightarrow> bool" where
  "HasPrefix s pre = (take (length pre) s = pre)"

text \<open>\<open>strings.Replace(s, old, new, 1)\<close> for a one-character \<open>old\<close>: only the first
  occurrence is replaced.\<close>

fun Replace1 :: "string \<Rightarrow> char \<Rightarrow> string \<Rightarrow> string" where
  "Replace1 [] old new = []"
| "Replace1 (c # cs) old new = (if c = old then new @ cs else c # Replace1 cs old new)"

section \<open>The configuration record (cmswwwdataload/config/config.go)\<close>

record Config =
  AdminEmail :: string
  AdminUser :: string
  AdminPass :: string
  ContractorEmail :: string
  ContractorUser :: string
  ContractorPass :: string
  ContractorName :: string
  ContractorLocation :: string
  ContractorExtendedPublicKey :: string
  Verbose :: bool
  DataDir :: string
  ConfigFile :: string
  DebugLevel :: string
  DeleteData :: bool
  IncludeTests :: bool
  PoliteiadLogFile :: string
  CmswwwLogFile :: string

text \<open>
  The options of the record, named by their \<open>long:\<close> struct tags. The two log-file
  fields carry no tag, so neither the command line nor the config file can set them.
\<close>

datatype strfield =
  adminemail | adminuser | adminpass | contractoremail | contractoruser | contractorpass
  | contractorname | contractorlocation | contractorextendedpublickey
  | datadir | configfile | debuglevel

datatype boolfield = verbose | deletedata | includetests

datatype setting = SetStr strfield string | SetBool boolfield bool

fun getStr :: "strfield \<Rightarrow> Config \<Rightarrow> string" where
  "getStr adminemail = AdminEmail"
| "getStr adminuser = AdminUser"
| "getStr adminpass = AdminPass"
| "getStr contractoremail = ContractorEmail"
| "getStr contractoruser = ContractorUser"
| "getStr contractorpass = ContractorPass"
| "getStr contractorname = ContractorName"
| "getStr contractorlocation = ContractorLocation"
| "getStr contractorextendedpublickey = ContractorExtendedPublicKey"
| "getStr datadir = DataDir"
| "getStr configfile = ConfigFile"
| "getStr debuglevel = DebugLevel"


fun setStr :: "strfield \<Rightarrow> string \<Rightarrow> Config \<Rightarrow> Config" where
  "setStr adminemail v cfg = cfg\<lparr>AdminEmail := v\<rparr>"
| "setStr adminuser v cfg = cfg\<lparr>AdminUser := v\<rparr>"
| "setStr adminpass v cfg = cfg\<lparr>AdminPass := v\<rparr>"
| "setStr contractoremail v cfg = cfg\<lparr>ContractorEmail := v\<rparr>"
| "setStr contractoruser v cfg = cfg\<lparr>ContractorUser := v\<rparr>"
| "setStr contractorpass v cfg = cfg\<lparr>ContractorPass := v\<rparr>"
| "setStr contractorname v cfg = cfg\<lparr>ContractorName := v\<rparr>"
| "setStr contractorlocation v cfg = cfg\<lparr>ContractorLocation := v\<rparr>"
| "setStr contractorextendedpublickey v cfg = cfg\<lparr>ContractorExtendedPublicKey := v\<rparr>"
| "setStr datadir v cfg = cfg\<lparr>DataDir := v\<rparr>"
| "setStr configfile v cfg = cfg\<lparr>ConfigFile := v\<rparr>"
| "setStr debuglevel v cfg = cfg\<lparr>DebugLevel := v\<rparr>"

fun setBool :: "boolfield \<Rightarrow> bool \<Rightarrow> Config \<Rightarrow> Config" where
  "setBool verbose v cfg = cfg\<lparr>Verbose := v\<rparr>"
| "setBool deletedata v cfg = cfg\<lparr>DeleteData := v\<rparr>"
| "setBool includetests v cfg = cfg\<lparr>IncludeTests := v\<rparr>"

fun applySetting :: "Config \<Rightarrow> setting \<Rightarrow> Config" where
  "applySetting cfg (SetStr f v) = setStr f v cfg"
| "applySetting cfg (SetBool f v) = setBool f v cfg"

text \<open>Options are stored into the record one after the other, so a repeated option
  keeps its last value.\<close>

definition applySettings :: "setting list \<Rightarrow> Config \<Rightarrow> Config" where
  "applySettings ss cfg = foldl applySetting cfg ss"

text \<open>The last value a list of settings gives to an option, if any.\<close>

fun lastStr :: "strfield \<Rightarrow> setting list \<Rightarrow> string option" where
  "lastStr f [] = None"
| "lastStr f (SetStr g v # ss) =
     (case lastStr f ss of Some w \<Rightarrow> Some w | None \<Rightarrow> if f = g then Some v else None)"
| "lastStr f (SetBool g v # ss) = lastStr f ss"


section \<open>The surroundings of \<open>Load\<close>\<close>

text \<open>
  \<open>Load\<close> reads the process arguments through the go-flags parser, the config file
  through go-flags' ini parser, and the file system through package \<open>os\<close>. None of
  these is part of the repository; each is an input of the model.

  A run of \<open>Parser.Parse\<close> stores the options it accepts into the record, in the order
  of the arguments, and stops at the first argument it rejects or at the help flag:
  \<open>flagsSet\<close> are the options stored, \<open>flagsErr\<close> is the error returned
  (\<open>ErrHelp\<close> for the help flag, \<open>ErrOther\<close> for every other error). An option that is
  not given leaves its field as it was: no field of \<open>Config\<close> has a \<open>default:\<close> tag.

  \<open>Load\<close> parses the arguments twice, with parsers built from different option sets
  (\<open>flags.HelpFlag\<close>, then \<open>flags.Default\<close>, which adds \<open>PrintErrors\<close> and
  \<open>PassDoubleDash\<close>). The two results are kept apart as \<open>prePass\<close> and \<open>finalPass\<close>;
  they are equal whenever no bare \<open>--\<close> occurs among the arguments.
\<close>

datatype flags_error = ErrHelp | ErrOther

record parsed =
  flagsSet :: "setting list"
  flagsErr :: "flags_error option"

record cmdline =
  prePass :: parsed
  finalPass :: parsed

definition Parse :: "parsed \<Rightarrow> Config \<Rightarrow> Config \<times> flags_error option" where
  "Parse p cfg = (applySettings (flagsSet p) cfg, flagsErr p)"

text \<open>
  The arguments as the parser meets them, from left to right: an option it stores, the
  help flag, or an argument it rejects (an unknown flag, a flag without its value). A
  run stores the options that come before the first help flag or rejected argument and
  ends there, with \<open>ErrHelp\<close> or with the other error. \<open>commandLine\<close> is the command
  line of arguments without a bare \<open>--\<close>, which both parsers read alike.
\<close>

datatype argument = Opt setting | HelpArg | BadArg

fun parseArgs :: "argument list \<Rightarrow> parsed" where
  "parseArgs [] = \<lparr>flagsSet = [], flagsErr = None\<rparr>"
| "parseArgs (Opt s # rest) = (parseArgs rest)\<lparr>flagsSet := s # flagsSet (parseArgs rest)\<rparr>"
| "parseArgs (HelpArg # rest) = \<lparr>flagsSet = [], flagsErr = Some ErrHelp\<rparr>"
| "parseArgs (BadArg # rest) = \<lparr>flagsSet = [], flagsErr = Some ErrOther\<rparr>"


text \<open>
  \<open>IniParser.ParseFile\<close> at a path: a \<open>*os.PathError\<close> when the file cannot be opened
  or read (it does not exist, permission is denied, ...), any other error when its
  content is rejected, or the options it holds.
\<close>

datatype errno = ENOENT | EACCES | EISDIR

datatype ini_result = PathError errno | IniError | IniOK "setting list"

record env =
  DefaultHomeDir :: string \<comment> \<open>\<open>sharedconfig.DefaultHomeDir\<close>\<close>
  Getwd :: "string option" \<comment> \<open>\<open>os.Getwd\<close>, \<open>None\<close> when it fails\<close>
  ExpandEnv :: "string \<Rightarrow> string" \<comment> \<open>\<open>os.ExpandEnv\<close>\<close>
  ParseFile :: "string \<Rightarrow> ini_result"
  MkdirAll :: "string \<Rightarrow> bool" \<comment> \<open>whether \<open>os.MkdirAll\<close> succeeds\<close>

text \<open>\<open>filepath.Abs\<close>; \<open>Load\<close> drops its error, keeping the empty string it returns
  with one.\<close>

definition Abs :: "env \<Rightarrow> string \<Rightarrow> string" where
  "Abs env path =
     (if IsAbs path then Clean path
      else (case Getwd env of None \<Rightarrow> [] | Some wd \<Rightarrow> Join wd path))"

section \<open>\<open>Load\<close>\<close>

definition defaultDataDirname :: string where
  "defaultDataDirname = ''dataload''"

definition defaultConfigFilename :: string where
  "defaultConfigFilename = ''cmswwwdataload.conf''"

definition defaultPoliteiadLogFilename :: string where
  "defaultPoliteiadLogFilename = ''politeiad.log''"

definition defaultCmswwwLogFilename :: string where
  "defaultCmswwwLogFilename = ''cmswww.log''"

definition defaultLogLevel :: string where
  "defaultLogLevel = ''info''"

definition defaultDataDir :: "env \<Rightarrow> string" where
  "defaultDataDir env = Join (DefaultHomeDir env) defaultDataDirname"

definition defaultConfigFile :: "env \<Rightarrow> string" where
  "defaultConfigFile env = Join (defaultDataDir env) defaultConfigFilename"

definition cleanAndExpandPath :: "env \<Rightarrow> string \<Rightarrow> string" where
  "cleanAndExpandPath env path =
     (let path' = (if HasPrefix path ''~''
                   then Replace1 path (CHR ''~'') (Dir (DefaultHomeDir env))
                   else path)
      in Clean (ExpandEnv env path'))"

text \<open>The record \<open>Load\<close> starts from; fields the literal leaves out have Go's zero
  value.\<close>

definition defaultConfig :: "env \<Rightarrow> Config" where
  "defaultConfig env =
     \<lparr> AdminEmail = ''admin@example.com'',
       AdminUser = ''admin'',
       AdminPass = ''password'',
       ContractorEmail = ''contractor@example.com'',
       ContractorUser = ''contractor'',
       ContractorPass = ''password'',
       ContractorName = ''John Smith'',
       ContractorLocation = ''Dallas, TX, USA'',
       ContractorExtendedPublicKey = ''faketpub'',
       Verbose = False,
       DataDir = defaultDataDir env,
       ConfigFile = defaultConfigFile env,
       DebugLevel = defaultLogLevel,
       DeleteData = False,
       IncludeTests = False,
       PoliteiadLogFile = [],
       CmswwwLogFile = [] \<rparr>"

text \<open>
  What \<open>Load\<close> does besides returning: the messages it prints, the config file it
  asks the ini parser to read and the directory it asks \<open>os.MkdirAll\<close> to create, in
  the order of the calls.
\<close>

datatype message = HelpMessage | ConfigFileMessage | UsageMessage | DataDirMessage

datatype event =
  PrintErr message
  | ParseFileAt string
  | MkdirAllAt string
  | PrintWarning errno

datatype load_error = FlagsError flags_error | ConfigFileError | DataDirError

text \<open>Lines 133 to 143: the data directory and the config-file path after the
  pre-parse.\<close>

definition updateDataDir :: "env \<Rightarrow> Config \<Rightarrow> Config \<Rightarrow> Config" where
  "updateDataDir env preCfg cfg =
     (if DataDir preCfg \<noteq> [] then
        let cfg = cfg\<lparr>DataDir := Abs env (DataDir preCfg)\<rparr> in
        if ConfigFile preCfg = defaultConfigFile env
        then cfg\<lparr>ConfigFile := Join (DataDir cfg) defaultConfigFilename\<rparr>
        else cfg\<lparr>ConfigFile := cleanAndExpandPath env (ConfigFile preCfg)\<rparr>
      else cfg)"

definition Load :: "env \<Rightarrow> cmdline \<Rightarrow> event list \<times> (load_error + Config)" where
  "Load env cl =
     (let cfg = defaultConfig env;
          (preCfg, err) = Parse (prePass cl) cfg
      in if err = Some ErrHelp then ([PrintErr HelpMessage], Inl (FlagsError ErrHelp))
         else
           let cfg = updateDataDir env preCfg cfg;
               rd = ParseFileAt (ConfigFile cfg)
           in case ParseFile env (ConfigFile cfg) of
                IniError \<Rightarrow>
                  ([rd, PrintErr ConfigFileMessage, PrintErr UsageMessage], Inl ConfigFileError)
              | r \<Rightarrow>
                  let cfg = (case r of IniOK ss \<Rightarrow> applySettings ss cfg | _ \<Rightarrow> cfg);
                      configFileError = (case r of PathError e \<Rightarrow> Some e | _ \<Rightarrow> None);
                      (cfg, err) = Parse (finalPass cl) cfg
                  in (case err of
                        Some e \<Rightarrow>
                          (rd # (if e \<noteq> ErrHelp then [PrintErr UsageMessage] else []),
                           Inl (FlagsError e))
                      | None \<Rightarrow>
                          let mk = MkdirAllAt (DataDir cfg)
                          in if \<not> MkdirAll env (DataDir cfg)
                             then ([rd, mk, PrintErr DataDirMessage], Inl DataDirError)
                             else
                               ([rd, mk] @
                                  (case configFileError of
                                     Some e \<Rightarrow> [PrintWarning e] | None \<Rightarrow> []),
                                Inr (cfg\<lparr>PoliteiadLogFile :=
                                            Join (DataDir cfg) defaultPoliteiadLogFilename,
                                          CmswwwLogFile :=
                                            Join (DataDir cfg) defaultCmswwwLogFilename\<rparr>))))"

text \<open>The path \<open>Load\<close> hands to the ini parser: the \<open>ConfigFile\<close> field as lines 133 to
  143 leave it.\<close>

definition configPath :: "env \<Rightarrow> cmdline \<Rightarrow> string" where
  "configPath env cl =
     ConfigFile (updateDataDir env (fst (Parse (prePass cl) (defaultConfig env)))
       (defaultConfig env))"

section \<open>Example inputs\<close>

text \<open>Four identities of key size two: a retired one, one never activated, and two active
  ones.\<close>

definition exampleIdentities :: "Identity list" where
  "exampleIdentities =
     [\<lparr>Key = [1, 1], Activated = 10, Deactivated = 20\<rparr>,
      \<lparr>Key = [2, 2], Activated = 0, Deactivated = 0\<rparr>,
      \<lparr>Key = [3, 171], Activated = 30, Deactivated = 0\<rparr>,
      \<lparr>Key = [4, 4], Activated = 40, Deactivated = 0\<rparr>]"

text \<open>Two identities, both deactivated.\<close>

definition retiredIdentities :: "Identity list" where
  "retiredIdentities =
     [\<lparr>Key = [1, 1], Activated = 10, Deactivated = 20\<rparr>,
      \<lparr>Key = [2, 2], Activated = 0, Deactivated = 7\<rparr>]"

text \<open>
  A machine for the examples: the application's home directory is
  \<open>/home/u/.cmswww\<close>, the working directory is \<open>/work\<close>, no environment variable
  occurs in a path, no config file exists, and every directory can be created.
\<close>

definition exampleEnv :: env where
  "exampleEnv =
     \<lparr> DefaultHomeDir = ''/home/u/.cmswww'',
       Getwd = Some ''/work'',
       ExpandEnv = (\<lambda>s. s),
       ParseFile = (\<lambda>p. PathError ENOENT),
       MkdirAll = (\<lambda>p. True) \<rparr>"

text \<open>The same machine with a config file at the default path, setting three options.\<close>

definition fileEnv :: env where
  "fileEnv =
     \<lparr> DefaultHomeDir = ''/home/u/.cmswww'',
       Getwd = Some ''/work'',
       ExpandEnv = (\<lambda>s. s),
       ParseFile = (\<lambda>p. if p = ''/home/u/.cmswww/dataload/cmswwwdataload.conf''
                          then IniOK [SetStr adminuser ''fileuser'', SetStr adminpass ''filepass'',
                                      SetBool verbose True]
                          else PathError ENOENT),
       MkdirAll = (\<lambda>p. True) \<rparr>"

text \<open>The same machine where no config file can be opened: permission is denied.\<close>

definition unreadableEnv :: env where
  "unreadableEnv =
     \<lparr> DefaultHomeDir = ''/home/u/.cmswww'',
       Getwd = Some ''/work'',
       ExpandEnv = (\<lambda>s. s),
       ParseFile = (\<lambda>p. PathError EACCES),
       MkdirAll = (\<lambda>p. True) \<rparr>"

text \<open>The same machine where the ini parser rejects the content of every config file.\<close>

definition malformedEnv :: env where
  "malformedEnv =
     \<lparr> DefaultHomeDir = ''/home/u/.cmswww'',
       Getwd = Some ''/work'',
       ExpandEnv = (\<lambda>s. s),
       ParseFile = (\<lambda>p. IniError),
       MkdirAll = (\<lambda>p. True) \<rparr>"

text \<open>A command line that both parsers accept, storing the options \<open>ss\<close>.\<close>

definition args :: "setting list \<Rightarrow> cmdline" where
  "args ss =
     \<lparr> prePass = \<lparr> flagsSet = ss, flagsErr = None \<rparr>,
       finalPass = \<lparr> flagsSet = ss, flagsErr = None \<rparr> \<rparr>"



text \<open>The arguments \<open>--datadir=/tmp/x --configfile=~/etc/../my.conf\<close>.\<close>

definition overrideArgs :: cmdline where
  "overrideArgs = args [SetStr datadir ''/tmp/x'', SetStr configfile ''~/etc/../my.conf'']"

text \<open>A command line for \<open>fileEnv\<close>, and the record \<open>Load\<close> returns for it.\<close>

definition fileArgs :: cmdline where
  "fileArgs = args [SetStr adminuser ''cliuser'', SetBool deletedata True]"

definition fileResult :: Config where
  "fileResult =
     \<lparr> AdminEmail = ''admin@example.com'',
       AdminUser = ''cliuser'',
       AdminPass = ''filepass'',
       ContractorEmail = ''contractor@example.com'',
       ContractorUser = ''contractor'',
       ContractorPass = ''password'',
       ContractorName = ''John Smith'',
       ContractorLocation = ''Dallas, TX, USA'',
       ContractorExtendedPublicKey = ''faketpub'',
       Verbose = True,
       DataDir = ''/home/u/.cmswww/dataload'',
       ConfigFile = ''/home/u/.cmswww/dataload/cmswwwdataload.conf'',
       DebugLevel = ''info'',
       DeleteData = True,
       IncludeTests = False,
       PoliteiadLogFile = ''/home/u/.cmswww/dataload/politeiad.log'',
       CmswwwLogFile = ''/home/u/.cmswww/dataload/cmswww.log'' \<rparr>"

section \<open>Identities: the active key\<close>

lemma replicate_numeral: "replicate (numeral k) x = x # replicate (pred_numeral k) x"
  by (simp add: numeral_eq_Suc)

lemma ActiveIdentity_none:
  "\<forall>v\<in>set i. \<not> IsIdentityActive v \<Longrightarrow> ActiveIdentity ksz i = (replicate ksz 0, False)"
  by (induction i) simp_all

lemma ActiveIdentity_first:
  "\<forall>u\<in>set pre. \<not> IsIdentityActive u \<Longrightarrow> IsIdentityActive v \<Longrightarrow>
   ActiveIdentity ksz (pre @ v # post) = (Key v, True)"
  by (induction pre) simp_all

lemma EncodeToString_zero: "EncodeToString (replicate n 0) = replicate (2 * n) (CHR ''0'')"
  by (induction n) (simp_all add: EncodeToString_def hextable_def)

text \<open>
  C3: on the empty sequence, on a sequence whose entries all have a non-zero
  \<open>Deactivated\<close>, and on any sequence without an active entry, \<open>ActiveIdentity\<close>
  returns the all-zero key and \<open>False\<close>. On a sequence with an active entry \<open>v\<close> that
  no active entry precedes, it returns the key of \<open>v\<close> and \<open>True\<close>, whatever follows
  \<open>v\<close> (further active entries included).
\<close>

theorem ActiveIdentity_spec:
  "ActiveIdentity ksz [] = (replicate ksz 0, False)
   \<and> ((\<forall>v\<in>set i. Deactivated v \<noteq> 0) \<longrightarrow> ActiveIdentity ksz i = (replicate ksz 0, False))
   \<and> ((\<forall>v\<in>set i. \<not> IsIdentityActive v) \<longrightarrow> ActiveIdentity ksz i = (replicate ksz 0, False))
   \<and> ((\<forall>u\<in>set pre. \<not> IsIdentityActive u) \<and> IsIdentityActive v \<longrightarrow>
        ActiveIdentity ksz (pre @ v # post) = (Key v, True))"
proof -
  have "(\<forall>v\<in>set i. Deactivated v \<noteq> 0) \<longrightarrow> (\<forall>v\<in>set i. \<not> IsIdentityActive v)"
    by (simp add: IsIdentityActive_def)
  then show ?thesis
    using ActiveIdentity_none [of i ksz] ActiveIdentity_first [of pre v ksz post]
    by auto
qed

theorem ActiveIdentity_spec_witness:
  "list_all (\<lambda>v. Deactivated v \<noteq> 0) retiredIdentities
   \<and> list_all (\<lambda>v. \<not> IsIdentityActive v) retiredIdentities
   \<and> ActiveIdentity 2 retiredIdentities = ([0, 0], False)
   \<and> list_all (\<lambda>u. \<not> IsIdentityActive u) (take 2 exampleIdentities)
   \<and> IsIdentityActive (exampleIdentities ! 2)
   \<and> IsIdentityActive (exampleIdentities ! 3)
   \<and> ActiveIdentity 2 exampleIdentities = ([3, 171], True)"
  using ActiveIdentity_spec [of 2 retiredIdentities "take 2 exampleIdentities"
      "exampleIdentities ! 2" "drop 3 exampleIdentities"]
  by (simp add: exampleIdentities_def retiredIdentities_def IsIdentityActive_def
      replicate_numeral)

text \<open>
  C4: \<open>IsIdentityActive\<close> holds exactly when \<open>Activated\<close> is non-zero and
  \<open>Deactivated\<close> is zero; of the four combinations of zero and non-zero timestamps it
  accepts only that one.
\<close>

theorem IsIdentityActive_iff:
  "IsIdentityActive idn = (Activated idn \<noteq> 0 \<and> Deactivated idn = 0)
   \<and> (Activated idn \<noteq> 0 \<and> Deactivated idn = 0 \<longrightarrow> IsIdentityActive idn)
   \<and> (Activated idn \<noteq> 0 \<and> Deactivated idn \<noteq> 0 \<longrightarrow> \<not> IsIdentityActive idn)
   \<and> (Activated idn = 0 \<and> Deactivated idn = 0 \<longrightarrow> \<not> IsIdentityActive idn)
   \<and> (Activated idn = 0 \<and> Deactivated idn \<noteq> 0 \<longrightarrow> \<not> IsIdentityActive idn)"
  by (simp add: IsIdentityActive_def)

theorem IsIdentityActive_iff_witness:
  "IsIdentityActive \<lparr>Key = [1, 2], Activated = 5, Deactivated = 0\<rparr>
   \<and> \<not> IsIdentityActive \<lparr>Key = [1, 2], Activated = 5, Deactivated = 9\<rparr>
   \<and> \<not> IsIdentityActive \<lparr>Key = [1, 2], Activated = 0, Deactivated = 0\<rparr>
   \<and> \<not> IsIdentityActive \<lparr>Key = [1, 2], Activated = 0, Deactivated = 9\<rparr>"
  using IsIdentityActive_iff [of "\<lparr>Key = [1, 2], Activated = 5, Deactivated = 0\<rparr>"]
    IsIdentityActive_iff [of "\<lparr>Key = [1, 2], Activated = 5, Deactivated = 9\<rparr>"]
    IsIdentityActive_iff [of "\<lparr>Key = [1, 2], Activated = 0, Deactivated = 0\<rparr>"]
    IsIdentityActive_iff [of "\<lparr>Key = [1, 2], Activated = 0, Deactivated = 9\<rparr>"]
  by simp

text \<open>
  C10: \<open>ActiveIdentityString\<close> returns the hex encoding of the key that
  \<open>ActiveIdentity\<close> returns, with the same flag. Without an active identity the string
  consists of twice the key size many characters \<open>0\<close>, and the flag is \<open>False\<close>.
\<close>

theorem ActiveIdentityString_spec:
  "ActiveIdentityString ksz i =
     (EncodeToString (fst (ActiveIdentity ksz i)), snd (ActiveIdentity ksz i))
   \<and> ((\<forall>v\<in>set i. \<not> IsIdentityActive v) \<longrightarrow>
        ActiveIdentityString ksz i = (replicate (2 * ksz) (CHR ''0''), False))"
  using ActiveIdentity_none [of i ksz]
  by (simp add: ActiveIdentityString_def EncodeToString_zero split: prod.splits)

theorem ActiveIdentityString_spec_witness:
  "list_all (\<lambda>v. \<not> IsIdentityActive v) retiredIdentities
   \<and> ActiveIdentityString 4 retiredIdentities = (''00000000'', False)
   \<and> ActiveIdentityString 2 exampleIdentities = (''03ab'', True)"
  using ActiveIdentityString_spec [of 4 retiredIdentities]
    ActiveIdentityString_spec [of 2 exampleIdentities]
  by (simp add: exampleIdentities_def retiredIdentities_def IsIdentityActive_def
      EncodeToString_def hextable_def replicate_numeral)

section \<open>\<open>Load\<close>: the shape of a run\<close>

lemma getStr_setStr: "getStr f (setStr g v cfg) = (if f = g then v else getStr f cfg)"
  by (cases f; cases g; simp)

lemma getStr_setBool: "getStr f (setBool g v cfg) = getStr f cfg"
  by (cases f; cases g; simp)



lemma getStr_foldl:
  "getStr f (foldl applySetting cfg ss) =
     (case lastStr f ss of Some v \<Rightarrow> v | None \<Rightarrow> getStr f cfg)"
proof (induction ss arbitrary: cfg)
  case Nil
  show ?case by simp
next
  case (Cons s ss)
  show ?case
    by (cases s) (simp_all add: Cons.IH getStr_setStr getStr_setBool split: option.splits)
qed




lemma lastStr_Some_getStr:
  "getStr f (applySettings ss cfg) = (case lastStr f ss of Some v \<Rightarrow> v | None \<Rightarrow> getStr f cfg)"
  by (simp add: applySettings_def getStr_foldl)

lemma applySettings_Nil: "applySettings [] cfg = cfg"
  by (simp add: applySettings_def)

text \<open>A run that passes the pre-parse without the help flag.\<close>

lemma Load_nohelp:
  assumes "flagsErr (prePass cl) \<noteq> Some ErrHelp"
  shows "Load env cl =
     (let base = updateDataDir env (applySettings (flagsSet (prePass cl)) (defaultConfig env))
                   (defaultConfig env);
          rd = ParseFileAt (ConfigFile base)
      in case ParseFile env (ConfigFile base) of
           IniError \<Rightarrow>
             ([rd, PrintErr ConfigFileMessage, PrintErr UsageMessage], Inl ConfigFileError)
         | r \<Rightarrow>
             let cfg = applySettings (flagsSet (finalPass cl))
                         (case r of IniOK ss \<Rightarrow> applySettings ss base | _ \<Rightarrow> base)
             in (case flagsErr (finalPass cl) of
                   Some e \<Rightarrow>
                     (rd # (if e \<noteq> ErrHelp then [PrintErr UsageMessage] else []),
                      Inl (FlagsError e))
                 | None \<Rightarrow>
                     if \<not> MkdirAll env (DataDir cfg)
                     then ([rd, MkdirAllAt (DataDir cfg), PrintErr DataDirMessage],
                           Inl DataDirError)
                     else
                       ([rd, MkdirAllAt (DataDir cfg)] @
                          (case r of PathError e \<Rightarrow> [PrintWarning e] | _ \<Rightarrow> []),
                        Inr (cfg\<lparr>PoliteiadLogFile :=
                                    Join (DataDir cfg) defaultPoliteiadLogFilename,
                                  CmswwwLogFile :=
                                    Join (DataDir cfg) defaultCmswwwLogFilename\<rparr>))))"
  using assms
  by (simp add: Load_def Parse_def Let_def split: ini_result.splits option.splits)

lemma configPath_eq:
  "configPath env cl =
     ConfigFile (updateDataDir env (applySettings (flagsSet (prePass cl)) (defaultConfig env))
       (defaultConfig env))"
  by (simp add: configPath_def Parse_def)

lemma Load_Inr_cfg:
  assumes "snd (Load env cl) = Inr cfg"
  shows "\<exists>c. c = applySettings (flagsSet (finalPass cl))
                 (case ParseFile env (configPath env cl) of
                    IniOK ss \<Rightarrow> applySettings ss
                      (updateDataDir env (fst (Parse (prePass cl) (defaultConfig env)))
                         (defaultConfig env))
                  | _ \<Rightarrow> updateDataDir env (fst (Parse (prePass cl) (defaultConfig env)))
                         (defaultConfig env))
           \<and> cfg = c\<lparr>PoliteiadLogFile := Join (DataDir c) defaultPoliteiadLogFilename,
                      CmswwwLogFile := Join (DataDir c) defaultCmswwwLogFilename\<rparr>"
proof -
  have nh: "flagsErr (prePass cl) \<noteq> Some ErrHelp"
    using assms by (auto simp add: Load_def Parse_def)
  show ?thesis
    using assms unfolding Load_nohelp [OF nh] configPath_def Parse_def
    by (auto simp add: Let_def split: ini_result.splits option.splits if_splits)
qed

lemma Load_hd:
  assumes "flagsErr (prePass cl) \<noteq> Some ErrHelp"
  shows "hd (fst (Load env cl)) = ParseFileAt (configPath env cl)"
  unfolding Load_nohelp [OF assms] configPath_eq
  by (simp add: Let_def split: ini_result.splits option.splits)

lemma Load_reads:
  assumes "ParseFileAt q \<in> set (fst (Load env cl))"
  shows "q = configPath env cl"
proof -
  have nh: "flagsErr (prePass cl) \<noteq> Some ErrHelp"
    using assms by (auto simp add: Load_def Parse_def)
  show ?thesis
    using assms unfolding Load_nohelp [OF nh] configPath_eq
    by (auto simp add: Let_def split: ini_result.splits option.splits if_splits)
qed

lemma Load_warning:
  assumes "PrintWarning e \<in> set (fst (Load env cl))"
  shows "ParseFile env (configPath env cl) = PathError e \<and> \<not> isl (snd (Load env cl))"
proof -
  have nh: "flagsErr (prePass cl) \<noteq> Some ErrHelp"
    using assms by (auto simp add: Load_def Parse_def)
  show ?thesis
    using assms unfolding Load_nohelp [OF nh] configPath_eq
    by (auto simp add: Let_def split: ini_result.splits option.splits if_splits)
qed

lemma Load_IniError:
  assumes "flagsErr (prePass cl) \<noteq> Some ErrHelp"
    and "ParseFile env (configPath env cl) = IniError"
  shows "Load env cl =
           ([ParseFileAt (configPath env cl), PrintErr ConfigFileMessage, PrintErr UsageMessage],
            Inl ConfigFileError)"
  using assms(2) unfolding Load_nohelp [OF assms(1)] configPath_eq
  by (simp add: Let_def)

lemma Load_IniError_isl:
  assumes "ParseFile env (configPath env cl) = IniError"
  shows "isl (snd (Load env cl))"
proof (cases "flagsErr (prePass cl) = Some ErrHelp")
  case True
  then show ?thesis by (simp add: Load_def Parse_def)
next
  case False
  then show ?thesis by (simp add: Load_IniError [OF False assms])
qed

text \<open>The config file plays no part in the paths \<open>Load\<close> computes before reading it.\<close>

lemma defaultConfig_ParseFile_update: "defaultConfig (env\<lparr>ParseFile := g\<rparr>) = defaultConfig env"
  by (simp add: defaultConfig_def defaultDataDir_def defaultConfigFile_def)

lemma updateDataDir_ParseFile_update:
  "updateDataDir (env\<lparr>ParseFile := g\<rparr>) pre cfg = updateDataDir env pre cfg"
  by (simp add: updateDataDir_def Abs_def defaultConfigFile_def defaultDataDir_def
      cleanAndExpandPath_def Let_def)

lemma configPath_ParseFile_update: "configPath (env\<lparr>ParseFile := g\<rparr>) cl = configPath env cl"
  by (simp add: configPath_def defaultConfig_ParseFile_update updateDataDir_ParseFile_update)

lemma Load_PathError:
  assumes "ParseFile env (configPath env cl) = PathError e"
  shows "snd (Load env cl) =
           snd (Load (env\<lparr>ParseFile := (ParseFile env)(configPath env cl := IniOK [])\<rparr>) cl)
       \<and> fst (Load env cl) =
           fst (Load (env\<lparr>ParseFile := (ParseFile env)(configPath env cl := IniOK [])\<rparr>) cl)
             @ (if isl (snd (Load env cl)) then [] else [PrintWarning e])"
proof (cases "flagsErr (prePass cl) = Some ErrHelp")
  case True
  then show ?thesis by (simp add: Load_def Parse_def)
next
  case False
  show ?thesis
    using assms unfolding Load_nohelp [OF False]
    by (simp add: configPath_eq [symmetric] defaultConfig_ParseFile_update
        updateDataDir_ParseFile_update applySettings_Nil Let_def split: option.splits)
qed

text \<open>Runs on the example machines.\<close>

lemma Load_fileEnv: "snd (Load fileEnv fileArgs) = Inr fileResult"
  by code_simp



lemma prePass_args: "prePass (args ss) = \<lparr>flagsSet = ss, flagsErr = None\<rparr>"
  by (simp add: args_def)

lemma configPath_malformed:
  "configPath malformedEnv (args []) = ''/home/u/.cmswww/dataload/cmswwwdataload.conf''"
  by code_simp

lemma Clean_tmp_x: "Clean ''/tmp/x'' = ''/tmp/x''"
  by code_simp

lemma Join_tmp_x_conf: "Join ''/tmp/x'' defaultConfigFilename = ''/tmp/x/cmswwwdataload.conf''"
  by code_simp

lemma Join_tmp_x_politeiad: "Join ''/tmp/x'' defaultPoliteiadLogFilename = ''/tmp/x/politeiad.log''"
  by code_simp

lemma Join_tmp_x_cmswww: "Join ''/tmp/x'' defaultCmswwwLogFilename = ''/tmp/x/cmswww.log''"
  by code_simp

lemma Abs_tmp_x: "Abs env ''/tmp/x'' = ''/tmp/x''"
  by (simp add: Abs_def IsAbs_def Separator_def Clean_tmp_x)

section \<open>\<open>Load\<close>: precedence of the sources\<close>



section \<open>\<open>Load\<close>: the config file\<close>

text \<open>
  C2, as amended: a config file that cannot be opened or read (a path error of any kind:
  the file is absent, permission is denied, it is a directory) never makes \<open>Load\<close>
  fail. The result is the one \<open>Load\<close> gives for an empty config file at that path, and
  the messages are the same, followed by a warning when \<open>Load\<close> succeeds. A config file
  whose content the ini parser rejects always makes \<open>Load\<close> fail; past the pre-parse
  the failure is the config-file error, reported with the usage hint. A warning is
  printed only for a path error at the path read, and only on success; the only path
  \<open>Load\<close> reads is \<open>configPath\<close>.
\<close>

theorem Load_config_file_errors:
  "(ParseFile env (configPath env cl) = IniError \<longrightarrow> isl (snd (Load env cl)))
   \<and> (flagsErr (prePass cl) \<noteq> Some ErrHelp \<and> ParseFile env (configPath env cl) = IniError \<longrightarrow>
        Load env cl =
          ([ParseFileAt (configPath env cl), PrintErr ConfigFileMessage, PrintErr UsageMessage],
           Inl ConfigFileError))
   \<and> (ParseFile env (configPath env cl) = PathError e \<longrightarrow>
        snd (Load env cl) =
          snd (Load (env\<lparr>ParseFile := (ParseFile env)(configPath env cl := IniOK [])\<rparr>) cl)
        \<and> fst (Load env cl) =
            fst (Load (env\<lparr>ParseFile := (ParseFile env)(configPath env cl := IniOK [])\<rparr>) cl)
              @ (if isl (snd (Load env cl)) then [] else [PrintWarning e]))
   \<and> (PrintWarning e \<in> set (fst (Load env cl)) \<longrightarrow>
        ParseFile env (configPath env cl) = PathError e \<and> \<not> isl (snd (Load env cl)))
   \<and> (ParseFileAt q \<in> set (fst (Load env cl)) \<longrightarrow> q = configPath env cl)"
proof -
  have 1: "ParseFile env (configPath env cl) = IniError \<longrightarrow> isl (snd (Load env cl))"
    using Load_IniError_isl [of env cl] by simp
  have 2: "flagsErr (prePass cl) \<noteq> Some ErrHelp \<and> ParseFile env (configPath env cl) = IniError \<longrightarrow>
        Load env cl =
          ([ParseFileAt (configPath env cl), PrintErr ConfigFileMessage, PrintErr UsageMessage],
           Inl ConfigFileError)"
    using Load_IniError [of cl env] by simp
  have 3: "ParseFile env (configPath env cl) = PathError e \<longrightarrow>
        snd (Load env cl) =
          snd (Load (env\<lparr>ParseFile := (ParseFile env)(configPath env cl := IniOK [])\<rparr>) cl)
        \<and> fst (Load env cl) =
            fst (Load (env\<lparr>ParseFile := (ParseFile env)(configPath env cl := IniOK [])\<rparr>) cl)
              @ (if isl (snd (Load env cl)) then [] else [PrintWarning e])"
    by (rule impI) (rule Load_PathError)
  have 4: "PrintWarning e \<in> set (fst (Load env cl)) \<longrightarrow>
        ParseFile env (configPath env cl) = PathError e \<and> \<not> isl (snd (Load env cl))"
    by (rule impI) (rule Load_warning)
  have 5: "ParseFileAt q \<in> set (fst (Load env cl)) \<longrightarrow> q = configPath env cl"
    by (rule impI) (rule Load_reads)
  show ?thesis
    by (rule conjI [OF 1 conjI [OF 2 conjI [OF 3 conjI [OF 4 5]]]])
qed

theorem Load_config_file_errors_witness:
  "ParseFile exampleEnv (configPath exampleEnv (args [])) = PathError ENOENT
   \<and> \<not> isl (snd (Load exampleEnv (args [])))
   \<and> PrintWarning ENOENT \<in> set (fst (Load exampleEnv (args [])))
   \<and> flagsErr (prePass (args [])) \<noteq> Some ErrHelp
   \<and> ParseFile malformedEnv (configPath malformedEnv (args [])) = IniError
   \<and> Load malformedEnv (args []) =
       ([ParseFileAt ''/home/u/.cmswww/dataload/cmswwwdataload.conf'',
         PrintErr ConfigFileMessage, PrintErr UsageMessage],
        Inl ConfigFileError)"
proof -
  have 1: "ParseFile exampleEnv (configPath exampleEnv (args [])) = PathError ENOENT"
    by (simp add: exampleEnv_def)
  have 2: "\<not> isl (snd (Load exampleEnv (args [])))"
    by code_simp
  have 3: "flagsErr (prePass (args [])) \<noteq> Some ErrHelp"
    by (simp add: args_def)
  have 4: "ParseFile malformedEnv (configPath malformedEnv (args [])) = IniError"
    by (simp add: malformedEnv_def)
  note t1 = Load_config_file_errors [where env = exampleEnv and cl = "args []" and e = ENOENT
        and q = "''x''"]
  note t2 = Load_config_file_errors [where env = malformedEnv and cl = "args []" and e = ENOENT
        and q = "''x''"]
  have 5: "Load malformedEnv (args []) =
       ([ParseFileAt (configPath malformedEnv (args [])),
         PrintErr ConfigFileMessage, PrintErr UsageMessage],
        Inl ConfigFileError)"
    by (rule t2 [THEN conjunct2, THEN conjunct1, THEN mp, OF conjI [OF 3 4]])
  have "fst (Load exampleEnv (args [])) =
          fst (Load (exampleEnv\<lparr>ParseFile := (ParseFile exampleEnv)
                 (configPath exampleEnv (args []) := IniOK [])\<rparr>) (args []))
            @ (if isl (snd (Load exampleEnv (args []))) then [] else [PrintWarning ENOENT])"
    using t1 [THEN conjunct2, THEN conjunct2, THEN conjunct1, THEN mp, OF 1]
    by (rule conjunct2)
  then have "fst (Load exampleEnv (args [])) =
          fst (Load (exampleEnv\<lparr>ParseFile := (ParseFile exampleEnv)
                 (configPath exampleEnv (args []) := IniOK [])\<rparr>) (args []))
            @ [PrintWarning ENOENT]"
    by (simp only: 2 if_False)
  then have 6: "PrintWarning ENOENT \<in> set (fst (Load exampleEnv (args [])))"
    by (simp only: set_append set_simps Un_iff insertI1 simp_thms)
  show ?thesis
    using 1 2 3 4 5 6 by (simp only: configPath_malformed simp_thms)
qed

text \<open>
  C2, as stated, fails: absence is not the only condition that is downgraded. With a
  config file that exists and cannot be opened (permission denied), \<open>Load\<close> succeeds and
  prints the warning.
\<close>

theorem Load_unreadable_counterexample:
  "ParseFile unreadableEnv ''/home/u/.cmswww/dataload/cmswwwdataload.conf'' = PathError EACCES
   \<and> fst (Load unreadableEnv (args [])) =
       [ParseFileAt ''/home/u/.cmswww/dataload/cmswwwdataload.conf'',
        MkdirAllAt ''/home/u/.cmswww/dataload'', PrintWarning EACCES]
   \<and> \<not> isl (snd (Load unreadableEnv (args [])))"
  by code_simp

section \<open>\<open>Load\<close>: the data directory and the config-file path\<close>

text \<open>
  C5: the run with the single option \<open>--datadir=rel\<close> on the example machine. The
  config file is read under \<open>/work/rel\<close>, the absolute path of the data directory, but
  the directory created and the \<open>DataDir\<close> returned are the relative \<open>rel\<close>, as typed:
  the final parse of the command line stores the option again, over the absolute path.
\<close>

theorem Load_relative_datadir:
  "fst (Load exampleEnv (args [SetStr datadir ''rel''])) =
     [ParseFileAt ''/work/rel/cmswwwdataload.conf'', MkdirAllAt ''rel'', PrintWarning ENOENT]
   \<and> \<not> isl (snd (Load exampleEnv (args [SetStr datadir ''rel''])))
   \<and> DataDir (projr (snd (Load exampleEnv (args [SetStr datadir ''rel''])))) = ''rel''
   \<and> \<not> IsAbs ''rel''"
  by code_simp

text \<open>
  The path read after a data-directory option: when the pre-parse does not end in the
  help flag and the command line gives a non-empty data directory \<open>dd\<close>, the config
  file \<open>Load\<close> reads is at \<open>configPath\<close>.
  If the config-file option still has its default value, that path is the default file
  name joined to the absolute path of \<open>dd\<close>. Otherwise it is the value \<open>cf\<close> of the
  option with a leading \<open>~\<close> replaced by the parent of the application's home
  directory, environment variables expanded and the result cleaned; \<open>dd\<close> plays no
  part in it.
\<close>

lemma configPath_after_datadir_override:
  assumes "flagsErr (prePass cl) \<noteq> Some ErrHelp"
    and "lastStr datadir (flagsSet (prePass cl)) = Some dd"
    and "dd \<noteq> []"
    and "cf = (case lastStr configfile (flagsSet (prePass cl)) of
                 Some v \<Rightarrow> v | None \<Rightarrow> defaultConfigFile env)"
  shows "hd (fst (Load env cl)) = ParseFileAt (configPath env cl)
       \<and> (cf = defaultConfigFile env \<longrightarrow>
            configPath env cl = Join (Abs env dd) defaultConfigFilename)
       \<and> (cf \<noteq> defaultConfigFile env \<longrightarrow>
            configPath env cl =
              Clean (ExpandEnv env
                (if HasPrefix cf ''~''
                 then Replace1 cf (CHR ''~'') (Dir (DefaultHomeDir env))
                 else cf)))"
proof -
  let ?pre = "applySettings (flagsSet (prePass cl)) (defaultConfig env)"
  have dd: "DataDir ?pre = dd"
    using lastStr_Some_getStr [of datadir "flagsSet (prePass cl)" "defaultConfig env"]
    by (simp add: assms(2))
  have gd: "getStr configfile (defaultConfig env) = defaultConfigFile env"
    by (simp add: defaultConfig_def)
  have cf: "ConfigFile ?pre = cf"
    using lastStr_Some_getStr [of configfile "flagsSet (prePass cl)" "defaultConfig env"]
    unfolding gd by (simp add: assms(4))
  show ?thesis
    using assms(3)
    by (simp add: Load_hd [OF assms(1)] configPath_eq updateDataDir_def dd cf
        cleanAndExpandPath_def Let_def)
qed

lemma configPath_after_datadir_override_example:
  "hd (fst (Load exampleEnv (args [SetStr datadir ''/tmp/x'']))) =
     ParseFileAt ''/tmp/x/cmswwwdataload.conf''
   \<and> hd (fst (Load exampleEnv
              (args [SetStr datadir ''/tmp/x'', SetStr configfile ''~/etc/../my.conf'']))) =
     ParseFileAt ''/home/u/my.conf''"
proof -
  have 1: "configPath exampleEnv (args [SetStr datadir ''/tmp/x'']) =
           ''/tmp/x/cmswwwdataload.conf''"
    by code_simp
  have 2: "configPath exampleEnv
             (args [SetStr datadir ''/tmp/x'', SetStr configfile ''~/etc/../my.conf'']) =
           ''/home/u/my.conf''"
    by code_simp
  have 3: "defaultConfigFile exampleEnv = ''/home/u/.cmswww/dataload/cmswwwdataload.conf''"
    by code_simp
  show ?thesis
    using configPath_after_datadir_override [of "args [SetStr datadir ''/tmp/x'']" "''/tmp/x''"
        "defaultConfigFile exampleEnv" exampleEnv]
      configPath_after_datadir_override
        [of "args [SetStr datadir ''/tmp/x'', SetStr configfile ''~/etc/../my.conf'']"
          "''/tmp/x''" "''~/etc/../my.conf''" exampleEnv]
    by (simp add: 1 2 3 prePass_args)
qed

text \<open>
  C6: the run with the options \<open>--datadir=/tmp/x --configfile=~/etc/../my.conf\<close> on the
  example machine. Line 141 cleans and expands the config-file path, and the config file
  is read at the result, \<open>/home/u/my.conf\<close>; but the \<open>ConfigFile\<close> of the record returned
  is the text of the option as typed: the final parse of the command line stores the
  option again, over the cleaned path. With \<open>--datadir=/tmp/x\<close> alone, the \<open>ConfigFile\<close>
  returned is the default file name under the new data directory.
\<close>

theorem Load_configfile_override:
  "cleanAndExpandPath exampleEnv ''~/etc/../my.conf'' = ''/home/u/my.conf''
   \<and> fst (Load exampleEnv overrideArgs) =
       [ParseFileAt ''/home/u/my.conf'', MkdirAllAt ''/tmp/x'', PrintWarning ENOENT]
   \<and> \<not> isl (snd (Load exampleEnv overrideArgs))
   \<and> ConfigFile (projr (snd (Load exampleEnv overrideArgs))) = ''~/etc/../my.conf''
   \<and> ConfigFile (projr (snd (Load exampleEnv (args [SetStr datadir ''/tmp/x''])))) =
       ''/tmp/x/cmswwwdataload.conf''"
  by code_simp

text \<open>
  C7: in every record \<open>Load\<close> returns, each of the two log-file paths is its default
  file name joined to the \<open>DataDir\<close> of that same record.
\<close>

theorem Load_log_files:
  "snd (Load env cl) = Inr cfg \<Longrightarrow>
   PoliteiadLogFile cfg = Join (DataDir cfg) defaultPoliteiadLogFilename
   \<and> CmswwwLogFile cfg = Join (DataDir cfg) defaultCmswwwLogFilename"
  using Load_Inr_cfg [of env cl cfg] by auto

theorem Load_log_files_witness:
  "snd (Load fileEnv fileArgs) = Inr fileResult
   \<and> DataDir fileResult = ''/home/u/.cmswww/dataload''
   \<and> PoliteiadLogFile fileResult = ''/home/u/.cmswww/dataload/politeiad.log''
   \<and> CmswwwLogFile fileResult = ''/home/u/.cmswww/dataload/cmswww.log''"
  using Load_log_files [OF Load_fileEnv]
  by (simp add: Load_fileEnv fileResult_def)

section \<open>\<open>Load\<close>: the help flag\<close>


text \<open>The pre-parse reports the help flag when the flag comes before every argument the
  parser rejects.\<close>

lemma parseArgs_help: "flagsErr (parseArgs (map Opt ss @ HelpArg # rest)) = Some ErrHelp"
  by (induction ss) simp_all




section \<open>\<open>Load\<close>: a data directory on the command line, no config file\<close>

text \<open>
  C9: when the command line consists of the option \<open>--datadir=/tmp/x\<close>, no file
  exists at \<open>/tmp/x/cmswwwdataload.conf\<close> and \<open>/tmp/x\<close> can be created, \<open>Load\<close> reads
  at that path, creates \<open>/tmp/x\<close>, prints the warning for the missing file and
  returns the default record with \<open>DataDir\<close> \<open>/tmp/x\<close>, \<open>ConfigFile\<close>
  \<open>/tmp/x/cmswwwdataload.conf\<close> and the log files \<open>/tmp/x/politeiad.log\<close> and
  \<open>/tmp/x/cmswww.log\<close>.
\<close>

theorem Load_tmp_x:
  assumes "prePass cl = \<lparr>flagsSet = [SetStr datadir ''/tmp/x''], flagsErr = None\<rparr>"
    and "finalPass cl = \<lparr>flagsSet = [SetStr datadir ''/tmp/x''], flagsErr = None\<rparr>"
    and "ParseFile env ''/tmp/x/cmswwwdataload.conf'' = PathError ENOENT"
    and "MkdirAll env ''/tmp/x''"
  shows "Load env cl =
           ([ParseFileAt ''/tmp/x/cmswwwdataload.conf'', MkdirAllAt ''/tmp/x'',
             PrintWarning ENOENT],
            Inr ((defaultConfig env)
                   \<lparr>DataDir := ''/tmp/x'',
                    ConfigFile := ''/tmp/x/cmswwwdataload.conf'',
                    PoliteiadLogFile := ''/tmp/x/politeiad.log'',
                    CmswwwLogFile := ''/tmp/x/cmswww.log''\<rparr>))"
proof -
  have nh: "flagsErr (prePass cl) \<noteq> Some ErrHelp"
    by (simp add: assms(1))
  have d: "ConfigFile (defaultConfig env) = defaultConfigFile env"
    by (simp add: defaultConfig_def)
  show ?thesis
    unfolding Load_nohelp [OF nh]
    by (simp add: assms applySettings_def updateDataDir_def Let_def d Abs_tmp_x
        Join_tmp_x_conf Join_tmp_x_politeiad Join_tmp_x_cmswww)
qed

theorem Load_tmp_x_witness:
  "Load exampleEnv (args [SetStr datadir ''/tmp/x'']) =
      ([ParseFileAt ''/tmp/x/cmswwwdataload.conf'', MkdirAllAt ''/tmp/x'',
        PrintWarning ENOENT],
       Inr ((defaultConfig exampleEnv)
              \<lparr>DataDir := ''/tmp/x'',
               ConfigFile := ''/tmp/x/cmswwwdataload.conf'',
               PoliteiadLogFile := ''/tmp/x/politeiad.log'',
               CmswwwLogFile := ''/tmp/x/cmswww.log''\<rparr>))"
  using Load_tmp_x [of "args [SetStr datadir ''/tmp/x'']" exampleEnv]
  by (simp add: args_def exampleEnv_def)

end
